theory Spec2Isabelle
  imports Main
begin

section \<open>Python values the program works with\<close>

text \<open>
  Texts are Python \<open>str\<close> values. A text is modelled as a \<open>string\<close> whose characters
  stand for the code points below 256; this includes the two notification texts of
  \<open>main\<close>, whose only characters outside ASCII are U+00E7 and U+00E9. Texts with other
  code points are outside the model.

  The exceptions that the source names in its \<open>except\<close> clauses, and one constructor for
  every other exception class.
\<close>

datatype py_error =
    AttributeError
  | IndexError
  | ValueError
  | RequestException
  | OtherException

subsection \<open>\<open>int(text)\<close> and \<open>str(n)\<close>\<close>

text \<open>
  \<open>int\<close> applied to a text, base 10, as CPython reads it: white space is skipped on both
  sides (the characters 9 to 13 and 32, and of the others below 256 the code points 133
  and 160), one sign may follow, then decimal digits, where single underscores may stand
  between two digits. Anything else raises \<open>ValueError\<close>. So does a text of more
  than 4300 digits: the interpreters since 3.11, and the later releases of 3.7 to 3.10,
  limit the digits of a conversion to \<open>sys.int_info.default_max_str_digits\<close> unless
  they are configured otherwise.
\<close>

definition is_space :: "char \<Rightarrow> bool" where
  "is_space c =
     (let n = (of_char c :: nat)
      in (9 \<le> n \<and> n \<le> 13) \<or> n = 32 \<or> n = 133 \<or> n = 160)"

definition strip :: "string \<Rightarrow> string" where
  "strip s = rev (dropWhile is_space (rev (dropWhile is_space s)))"

definition digit_val :: "char \<Rightarrow> nat option" where
  "digit_val c =
     (let n = (of_char c :: nat)
      in if 48 \<le> n \<and> n \<le> 57 then Some (n - 48) else None)"

fun digits_value :: "nat \<Rightarrow> string \<Rightarrow> nat option" where
  "digits_value acc [] = Some acc"
| "digits_value acc [c] =
     (case digit_val c of None \<Rightarrow> None | Some v \<Rightarrow> Some (10 * acc + v))"
| "digits_value acc (c # d # ds) =
     (if c = CHR ''_''
      then (case digit_val d of
              None \<Rightarrow> None
            | Some v \<Rightarrow> digits_value (10 * acc + v) ds)
      else (case digit_val c of
              None \<Rightarrow> None
            | Some v \<Rightarrow> digits_value (10 * acc + v) (d # ds)))"

definition unsigned_value :: "string \<Rightarrow> nat option" where
  "unsigned_value s =
     (case s of
        [] \<Rightarrow> None
      | c # cs \<Rightarrow> (case digit_val c of None \<Rightarrow> None | Some v \<Rightarrow> digits_value v cs))"


definition int_max_str_digits :: nat where
  "int_max_str_digits = 4300"

definition count_digits :: "string \<Rightarrow> nat" where
  "count_digits s = length (filter (\<lambda>c. digit_val c \<noteq> None) s)"

definition py_int :: "string \<Rightarrow> py_error + int" where
  "py_int s =
     (let t = strip s;
          negative = (t \<noteq> [] \<and> hd t = CHR ''-'');
          signed = (t \<noteq> [] \<and> (hd t = CHR ''-'' \<or> hd t = CHR ''+''));
          body = (if signed then tl t else t)
      in case unsigned_value body of
           None \<Rightarrow> Inl ValueError
         | Some n \<Rightarrow>
             if int_max_str_digits < count_digits body then Inl ValueError
             else Inr (if negative then - int n else int n))"

text \<open>\<open>text.replace('.', '')\<close>: every dot is removed.\<close>

definition replace_dot :: "string \<Rightarrow> string" where
  "replace_dot s = filter (\<lambda>c. c \<noteq> CHR ''.'') s"

text \<open>
  \<open>str(n)\<close>, which the f-strings of \<open>main\<close> apply to the prices: the decimal digits,
  after a minus sign when the number is negative.
\<close>

function digits_of :: "nat \<Rightarrow> string" where
  "digits_of n =
     (if n < 10 then [char_of (48 + n)]
      else digits_of (n div 10) @ [char_of (48 + n mod 10)])"
  by pat_completeness auto
termination
  by (relation "measure (\<lambda>n. n)") auto

declare digits_of.simps [simp del]

definition str_int :: "int \<Rightarrow> string" where
  "str_int i = (if i < 0 then CHR ''-'' # digits_of (nat (- i)) else digits_of (nat i))"

section \<open>The Extractor: \<open>parse_page\<close>\<close>

text \<open>
  The HTML parser is a library and a parameter \<open>bs\<close> of the model: \<open>bs html\<close> is what
  the two queries of \<open>parse_page\<close> see in \<open>BeautifulSoup(html, 'html.parser')\<close>.
  \<^item> \<open>find_title\<close>: \<open>soup.find('h1', class_='ui-pdp-title')\<close>, as the
    \<open>get_text(strip=True)\<close> of the element found, \<open>None\<close> when there is no such element;
  \<^item> \<open>find_all_fraction\<close>: \<open>soup.find_all('span', class_='andes-money-amount__fraction')\<close>,
    as the \<open>get_text(strip=True)\<close> of each element, in the order of the result list.
\<close>

record soup =
  find_title :: "string option"
  find_all_fraction :: "string list"

text \<open>The dictionary that \<open>parse_page\<close> returns, its five keys as fields.\<close>

record observation =
  product_name :: string
  old_price :: int
  new_price :: int
  installment_price :: int
  timestamp :: string

text \<open>
  \<open>int(prices[i].get_text(strip=True).replace('.', ''))\<close>: the index raises
  \<open>IndexError\<close> out of range, \<open>int\<close> raises \<open>ValueError\<close>.
\<close>

definition price_at :: "string list \<Rightarrow> nat \<Rightarrow> py_error + int" where
  "price_at prices i =
     (if i < length prices then py_int (replace_dot (prices ! i)) else Inl IndexError)"

text \<open>
  The body of the \<open>try\<close> block, statement by statement; \<open>now\<close> is what
  \<open>time.strftime('%Y-%m-%d %H:%M:%S')\<close> returns. Calling \<open>get_text\<close> on the \<open>None\<close>
  that \<open>find\<close> returns raises \<open>AttributeError\<close>.
\<close>

definition parse_page_try :: "(string \<Rightarrow> soup) \<Rightarrow> string \<Rightarrow> string \<Rightarrow> py_error + observation" where
  "parse_page_try bs now html =
     (let soup = bs html
      in case find_title soup of
           None \<Rightarrow> Inl AttributeError
         | Some name \<Rightarrow>
             (let prices = find_all_fraction soup
              in case price_at prices 0 of
                   Inl e \<Rightarrow> Inl e
                 | Inr old \<Rightarrow>
                     (case price_at prices 1 of
                        Inl e \<Rightarrow> Inl e
                      | Inr new \<Rightarrow>
                          (case price_at prices 2 of
                             Inl e \<Rightarrow> Inl e
                           | Inr inst \<Rightarrow>
                               Inr \<lparr>product_name = name, old_price = old, new_price = new,
                                    installment_price = inst, timestamp = now\<rparr>))))"

section \<open>The world the program acts on\<close>

text \<open>
  The rows of table \<open>prices\<close> in insertion order (the \<open>id\<close> column is their position),
  and the effects of the program in the order they happen.
\<close>

datatype log_line =
    Fetch_error
  | Parse_error py_error
  | Send_error
  | Info string
  | Saved_info observation

datatype event =
    Sent string
  | Send_raised string
  | Saved observation
  | Slept nat
  | Logged log_line

record world =
  ledger :: "observation list"
  trace :: "event list"

definition emit :: "event \<Rightarrow> world \<Rightarrow> world" where
  "emit e w = w\<lparr>trace := trace w @ [e]\<rparr>"

text \<open>
  \<open>parse_page\<close>: the \<open>except\<close> clause catches the three classes it names, logs and
  returns \<open>None\<close>; any other exception would leave the function (\<open>Inl\<close>).
\<close>

definition parse_page ::
  "(string \<Rightarrow> soup) \<Rightarrow> string \<Rightarrow> string \<Rightarrow> world \<Rightarrow> (py_error + observation option) \<times> world" where
  "parse_page bs now html w =
     (case parse_page_try bs now html of
        Inr info \<Rightarrow> (Inr (Some info), w)
      | Inl e \<Rightarrow>
          if e = AttributeError \<or> e = IndexError \<or> e = ValueError
          then (Inr None, emit (Logged (Parse_error e)) w)
          else (Inl e, w))"

section \<open>The Fetcher: \<open>fetch_page\<close>\<close>

text \<open>
  What \<open>requests.get(url)\<close> does is the environment's choice: it returns a response with
  a status code and a text, or raises a \<open>RequestException\<close>. \<open>raise_for_status\<close> raises
  (an \<open>HTTPError\<close>, which is a \<open>RequestException\<close>) for the codes 400 to 599. The
  \<open>except\<close> clause logs and returns \<open>None\<close>.
\<close>

datatype http_outcome =
    Response nat string
  | Request_raised

definition fetch_page :: "http_outcome \<Rightarrow> world \<Rightarrow> string option \<times> world" where
  "fetch_page h w =
     (case h of
        Response status_code text \<Rightarrow>
          if 400 \<le> status_code \<and> status_code < 600
          then (None, emit (Logged Fetch_error) w)
          else (Some text, w)
      | Request_raised \<Rightarrow> (None, emit (Logged Fetch_error) w))"

section \<open>The Ledger: \<open>save_to_database\<close> and \<open>get_max_price\<close>\<close>

text \<open>
  \<open>save_to_database\<close>: \<open>if data:\<close> is false for \<open>None\<close> and true for the dictionary of
  five keys; \<open>to_sql(..., if_exists='append')\<close> adds one row at the end of the table.
  The write is a call into pandas and SQLite that the source does not guard: whether it
  raises is the environment's choice (\<open>raises\<close>), and an exception leaves the function
  with the table as it was.
\<close>

definition save_to_database :: "bool \<Rightarrow> observation option \<Rightarrow> world \<Rightarrow> py_error option \<times> world" where
  "save_to_database raises data w =
     (case data of
        None \<Rightarrow> (None, w)
      | Some row \<Rightarrow>
          if raises then (Some OtherException, w)
          else (None, emit (Saved row) (w\<lparr>ledger := ledger w @ [row]\<rparr>)))"

text \<open>
  \<open>SELECT MAX(new_price), timestamp FROM prices\<close>. SQLite scans the rows in order and
  its \<open>max\<close> aggregate keeps a best row, replaced only by a row whose value is strictly
  greater; the bare column \<open>timestamp\<close> is read from the row that \<open>max\<close> kept. On an
  empty table the query still answers one row, \<open>(NULL, NULL)\<close>.
\<close>

fun minmax_step :: "observation option \<Rightarrow> observation \<Rightarrow> observation option" where
  "minmax_step None r = Some r"
| "minmax_step (Some best) r = (if new_price best < new_price r then Some r else Some best)"

definition select_max :: "observation list \<Rightarrow> int option \<times> string option" where
  "select_max rows =
     (case foldl minmax_step None rows of
        None \<Rightarrow> (None, None)
      | Some best \<Rightarrow> (Some (new_price best), Some (timestamp best)))"

text \<open>
  \<open>get_max_price\<close>: \<open>result\<close> is the one row the query answers, a pair and so true;
  \<open>result[0] is not None\<close> decides between the row and \<open>(None, None)\<close>. The query is
  taken to succeed.
\<close>

definition get_max_price :: "observation list \<Rightarrow> int option \<times> string option" where
  "get_max_price rows =
     (let result = select_max rows
      in case fst result of
           Some m \<Rightarrow> (Some m, snd result)
         | None \<Rightarrow> (None, None))"

section \<open>The Notifier: \<open>send_telegram_message\<close>\<close>

text \<open>
  Whether \<open>bot.send_message\<close> raises is the environment's choice. \<open>except Exception\<close>
  catches the exception and logs it; the function returns nothing either way.
\<close>

definition send_telegram_message :: "bool \<Rightarrow> string \<Rightarrow> world \<Rightarrow> world" where
  "send_telegram_message raises text w =
     (if raises then emit (Logged Send_error) (emit (Send_raised text) w)
      else emit (Sent text) w)"

section \<open>The Poll Loop: \<open>main\<close>\<close>

text \<open>The two f-strings of \<open>main\<close>; a \<open>None\<close> timestamp would print as \<open>None\<close>.\<close>

definition new_max_message :: "int \<Rightarrow> string" where
  "new_max_message current_price =
     ''Novo pre'' @ [CHR 0xE7] @ ''o maior detectado: '' @ str_int current_price"

definition recorded_max_message :: "int \<Rightarrow> string option \<Rightarrow> string" where
  "recorded_max_message max_price max_price_timestamp =
     ''O maior pre'' @ [CHR 0xE7] @ ''o registrado '' @ [CHR 0xE9] @ '' '' @ str_int max_price
       @ '' em '' @ (case max_price_timestamp of None \<Rightarrow> ''None'' | Some t \<Rightarrow> t)"

text \<open>What the environment supplies in one pass of the loop body.\<close>

record cycle_env =
  http :: http_outcome
  clock :: string
  send_raises :: bool
  store_raises :: bool

definition sleep :: "nat \<Rightarrow> world \<Rightarrow> world" where
  "sleep n w = emit (Slept n) w"

text \<open>
  Lines 124 to 137 of \<open>main\<close>: read the maximum, compare, compose the message, log it and
  send it.
\<close>

definition choose_message :: "int option \<times> string option \<Rightarrow> int \<Rightarrow> string" where
  "choose_message stored current_price =
     (case fst stored of
        None \<Rightarrow> new_max_message current_price
      | Some max_price \<Rightarrow>
          if current_price > max_price then new_max_message current_price
          else recorded_max_message max_price (snd stored))"

definition compare_and_notify :: "bool \<Rightarrow> observation \<Rightarrow> world \<Rightarrow> world" where
  "compare_and_notify raises product_info w =
     (let current_price = new_price product_info;
          stored = get_max_price (ledger w);
          message = choose_message stored current_price
      in send_telegram_message raises message (emit (Logged (Info message)) w))"

datatype outcome =
    Next_iteration
  | Raised py_error

text \<open>
  One pass of the body of \<open>while True\<close>. \<open>not page_content\<close> is true for \<open>None\<close> and for
  the empty text; \<open>not product_info\<close> is true for \<open>None\<close> only. An exception that no
  handler of the body catches leaves the loop (\<open>Raised\<close>).
\<close>

definition main_cycle :: "(string \<Rightarrow> soup) \<Rightarrow> cycle_env \<Rightarrow> world \<Rightarrow> outcome \<times> world" where
  "main_cycle bs env w =
     (case fetch_page (http env) w of
        (None, w1) \<Rightarrow> (Next_iteration, sleep 60 w1)
      | (Some page_content, w1) \<Rightarrow>
          if page_content = [] then (Next_iteration, sleep 60 w1)
          else
            (case parse_page bs (clock env) page_content w1 of
               (Inl e, w2) \<Rightarrow> (Raised e, w2)
             | (Inr None, w2) \<Rightarrow> (Next_iteration, sleep 60 w2)
             | (Inr (Some product_info), w2) \<Rightarrow>
                 (let w3 = compare_and_notify (send_raises env) product_info w2
                  in case save_to_database (store_raises env) (Some product_info) w3 of
                       (Some e, w4) \<Rightarrow> (Raised e, w4)
                     | (None, w4) \<Rightarrow>
                         (Next_iteration, sleep 60 (emit (Logged (Saved_info product_info)) w4)))))"

text \<open>
  The loop itself never ends on its own: it runs until an exception leaves the body or the
  process is interrupted from outside. The list holds what the environment supplied for
  the passes that began before the interruption.
\<close>

fun main_loop :: "(string \<Rightarrow> soup) \<Rightarrow> cycle_env list \<Rightarrow> world \<Rightarrow> outcome \<times> world" where
  "main_loop bs [] w = (Next_iteration, w)"
| "main_loop bs (env # envs) w =
     (case main_cycle bs env w of
        (Raised e, w') \<Rightarrow> (Raised e, w')
      | (Next_iteration, w') \<Rightarrow> main_loop bs envs w')"

section \<open>Reading a run\<close>

text \<open>
  The texts handed to \<open>bot.send_message\<close>, in order, whether the call raised or not, and
  the rows written.
\<close>

fun attempt_of :: "event \<Rightarrow> string option" where
  "attempt_of (Sent text) = Some text"
| "attempt_of (Send_raised text) = Some text"
| "attempt_of (Saved row) = None"
| "attempt_of (Slept n) = None"
| "attempt_of (Logged l) = None"

definition attempts :: "event list \<Rightarrow> string list" where
  "attempts tr = List.map_filter attempt_of tr"

fun write_of :: "event \<Rightarrow> observation option" where
  "write_of (Saved row) = Some row"
| "write_of (Sent text) = None"
| "write_of (Send_raised text) = None"
| "write_of (Slept n) = None"
| "write_of (Logged l) = None"

definition writes :: "event list \<Rightarrow> observation list" where
  "writes tr = List.map_filter write_of tr"

text \<open>
  What one pass extracts: the record of \<open>parse_page\<close>, or nothing when \<open>fetch_page\<close>
  gives no page, the page is the empty text, or \<open>parse_page\<close> gives \<open>None\<close>. Neither
  function's result depends on the world it starts in.
\<close>

definition blank :: world where
  "blank = \<lparr>ledger = [], trace = []\<rparr>"

definition extraction :: "(string \<Rightarrow> soup) \<Rightarrow> cycle_env \<Rightarrow> observation option" where
  "extraction bs env =
     (case fst (fetch_page (http env) blank) of
        None \<Rightarrow> None
      | Some page_content \<Rightarrow>
          if page_content = [] then None
          else
            (case fst (parse_page bs (clock env) page_content blank) of
               Inl e \<Rightarrow> None
             | Inr None \<Rightarrow> None
             | Inr (Some info) \<Rightarrow> Some info))"

text \<open>
  Two parsers for the examples. The first sees the same elements in every page. The
  second sees a name and three price elements in every page, the second price element
  having the page's own text as its text.
\<close>

definition fixed_soup :: "soup \<Rightarrow> string \<Rightarrow> soup" where
  "fixed_soup s html = s"

definition example_parser :: "string \<Rightarrow> soup" where
  "example_parser html =
     \<lparr>find_title = Some ''iPhone'', find_all_fraction = [''12.999'', html, ''1.083'']\<rparr>"

definition example_env :: "string \<Rightarrow> string \<Rightarrow> cycle_env" where
  "example_env page now =
     \<lparr>http = Response 200 page, clock = now, send_raises = False, store_raises = False\<rparr>"

section \<open>Evaluating the Extractor\<close>

lemma price_at_nth: "price_at (pre @ t # post) (length pre) = py_int (replace_dot t)"
  by (simp add: price_at_def)

lemma py_int_1234: "py_int ''1234'' = Inr 1234"
  by (simp add: py_int_def strip_def is_space_def unsigned_value_def digit_val_def
      count_digits_def int_max_str_digits_def)

lemma py_int_2000: "py_int ''2000'' = Inr 2000"
  by (simp add: py_int_def strip_def is_space_def unsigned_value_def digit_val_def
      count_digits_def int_max_str_digits_def)

lemma py_int_166: "py_int ''166'' = Inr 166"
  by (simp add: py_int_def strip_def is_space_def unsigned_value_def digit_val_def
      count_digits_def int_max_str_digits_def)

text \<open>
  C7. A price text is read by removing every dot and applying \<open>int\<close>; a price element
  with the text \<open>1.234\<close> yields 1234 and one with the text \<open>2.000\<close> yields 2000, at
  whatever position of the list it stands. A page with the three price texts \<open>1.234\<close>,
  \<open>2.000\<close> and \<open>166\<close> is extracted with the prices 1234, 2000 and 166.
\<close>

theorem parse_page_thousands_separator:
  "price_at (pre @ t # post) (length pre) = py_int (filter (\<lambda>c. c \<noteq> CHR ''.'') t)
   \<and> price_at (pre @ ''1.234'' # post) (length pre) = Inr 1234
   \<and> price_at (pre @ ''2.000'' # post) (length pre) = Inr 2000
   \<and> fst (parse_page
        (fixed_soup \<lparr>find_title = Some name, find_all_fraction = [''1.234'', ''2.000'', ''166'']\<rparr>)
        now html w)
     = Inr (Some \<lparr>product_name = name, old_price = 1234, new_price = 2000,
                  installment_price = 166, timestamp = now\<rparr>)"
proof -
  have a: "price_at (pre @ t # post) (length pre) = py_int (filter (\<lambda>c. c \<noteq> CHR ''.'') t)"
    by (simp add: price_at_nth replace_dot_def)
  have b: "price_at (pre @ ''1.234'' # post) (length pre) = Inr 1234"
    by (simp add: price_at_nth replace_dot_def py_int_1234)
  have c: "price_at (pre @ ''2.000'' # post) (length pre) = Inr 2000"
    by (simp add: price_at_nth replace_dot_def py_int_2000)
  have p0: "price_at [''1.234'', ''2.000'', ''166''] 0 = Inr 1234"
    by (simp add: price_at_def replace_dot_def py_int_1234)
  have p1: "price_at [''1.234'', ''2.000'', ''166''] (Suc 0) = Inr 2000"
    by (simp add: price_at_def replace_dot_def py_int_2000)
  have p2: "price_at [''1.234'', ''2.000'', ''166''] 2 = Inr 166"
    by (simp add: price_at_def replace_dot_def py_int_166)
  have d: "fst (parse_page
        (fixed_soup \<lparr>find_title = Some name, find_all_fraction = [''1.234'', ''2.000'', ''166'']\<rparr>)
        now html w)
     = Inr (Some \<lparr>product_name = name, old_price = 1234, new_price = 2000,
                  installment_price = 166, timestamp = now\<rparr>)"
    by (simp add: parse_page_def parse_page_try_def fixed_soup_def Let_def p0 p1 p2)
  from a b c d show ?thesis by simp
qed

subsection \<open>Which results \<open>parse_page\<close> has\<close>

lemma py_int_error: "py_int s = Inl e \<Longrightarrow> e = ValueError"
  by (auto simp: py_int_def Let_def split: option.splits if_splits)

lemma price_at_error: "price_at ps i = Inl e \<Longrightarrow> e = ValueError \<or> e = IndexError"
  by (auto simp: price_at_def dest: py_int_error split: if_splits)

lemma parse_page_try_error:
  "parse_page_try bs now html = Inl e \<Longrightarrow> e = AttributeError \<or> e = IndexError \<or> e = ValueError"
  by (auto simp: parse_page_try_def Let_def dest: price_at_error split: option.splits sum.splits)


lemma parse_page_try_Inr_iff:
  "parse_page_try bs now html = Inr r \<longleftrightarrow>
     (\<exists>name a b c. find_title (bs html) = Some name
        \<and> price_at (find_all_fraction (bs html)) 0 = Inr a
        \<and> price_at (find_all_fraction (bs html)) 1 = Inr b
        \<and> price_at (find_all_fraction (bs html)) 2 = Inr c
        \<and> r = \<lparr>product_name = name, old_price = a, new_price = b,
                 installment_price = c, timestamp = now\<rparr>)"
  by (auto simp: parse_page_try_def Let_def split: option.splits sum.splits)

lemma parse_page_Some_iff:
  "fst (parse_page bs now html w) = Inr (Some r) \<longleftrightarrow> parse_page_try bs now html = Inr r"
  by (auto simp: parse_page_def split: sum.splits)


lemma price_at_Inl_iff:
  "(\<exists>e. price_at ps i = Inl e) \<longleftrightarrow>
     (length ps \<le> i \<or> (i < length ps \<and> py_int (replace_dot (ps ! i)) = Inl ValueError))"
  by (auto simp: price_at_def dest: py_int_error)

subsection \<open>Texts that \<open>int\<close> rejects\<close>



lemma unsigned_value_leading_underscore: "unsigned_value (CHR ''_'' # s) = None"
  by (simp add: unsigned_value_def digit_val_def)



lemma price_at_Inr:
  "price_at ps i = Inr v \<Longrightarrow> i < length ps \<and> py_int (replace_dot (ps ! i)) = Inr v"
  by (cases "i < length ps") (simp_all add: price_at_def)




section \<open>The Ledger\<close>

lemma foldl_minmax_step_bound:
  "\<exists>r. foldl minmax_step (Some b) rs = Some r \<and> r \<in> set (b # rs)
       \<and> (\<forall>q \<in> set (b # rs). new_price q \<le> new_price r)"
proof (induction rs arbitrary: b)
  case Nil
  show ?case by simp
next
  case (Cons x xs)
  show ?case
  proof (cases "new_price b < new_price x")
    case True
    from Cons.IH [of x] obtain r where r: "foldl minmax_step (Some x) xs = Some r"
      "r \<in> set (x # xs)" "\<forall>q \<in> set (x # xs). new_price q \<le> new_price r" by blast
    from r(3) have "new_price x \<le> new_price r" by simp
    with True have "new_price b \<le> new_price r" by simp
    with True r show ?thesis by auto
  next
    case False
    from Cons.IH [of b] obtain r where r: "foldl minmax_step (Some b) xs = Some r"
      "r \<in> set (b # xs)" "\<forall>q \<in> set (b # xs). new_price q \<le> new_price r" by blast
    from r(3) have "new_price b \<le> new_price r" by simp
    with False have "new_price x \<le> new_price r" by simp
    with False r show ?thesis by auto
  qed
qed

lemma foldl_minmax_step:
  "\<exists>r. foldl minmax_step (Some b) rs = Some r \<and> r \<in> set (b # rs)
       \<and> new_price r = Max (new_price ` set (b # rs))"
proof -
  from foldl_minmax_step_bound [of b rs] obtain r where r: "foldl minmax_step (Some b) rs = Some r"
    "r \<in> set (b # rs)" "\<forall>q \<in> set (b # rs). new_price q \<le> new_price r" by blast
  have "Max (new_price ` set (b # rs)) = new_price r"
  proof (rule Max_eqI)
    show "finite (new_price ` set (b # rs))" by simp
    show "y \<le> new_price r" if "y \<in> new_price ` set (b # rs)" for y
      using that r(3) by auto
    show "new_price r \<in> new_price ` set (b # rs)" using r(2) by (rule imageI)
  qed
  with r show ?thesis by auto
qed

lemma get_max_price_Nil: "get_max_price [] = (None, None)"
  by (simp add: get_max_price_def select_max_def)

lemma get_max_price_Cons:
  "\<exists>r. r \<in> set (x # xs) \<and> new_price r = Max (new_price ` set (x # xs))
       \<and> get_max_price (x # xs) = (Some (new_price r), Some (timestamp r))"
proof -
  from foldl_minmax_step [of x xs] obtain r where "foldl minmax_step (Some x) xs = Some r"
    "r \<in> set (x # xs)" "new_price r = Max (new_price ` set (x # xs))" by blast
  then show ?thesis by (auto simp: get_max_price_def select_max_def)
qed

lemma get_max_price_None_iff: "fst (get_max_price rows) = None \<longleftrightarrow> rows = []"
proof (cases rows)
  case Nil
  then show ?thesis by (simp add: get_max_price_Nil)
next
  case (Cons x xs)
  with get_max_price_Cons [of x xs] show ?thesis by auto
qed

text \<open>
  C2. On an empty table \<open>get_max_price\<close> returns \<open>(None, None)\<close>. On a table with at
  least one row it returns the greatest \<open>new_price\<close> of all rows, with the time stamp of
  a row that has this price. After the rows with the prices 100, 250 and 180 are saved in
  this order into an empty table, it returns 250 with the time stamp of the second row.
\<close>

theorem get_max_price_maximum:
  "get_max_price [] = (None, None)
   \<and> (\<exists>r. r \<in> set (x # xs)
          \<and> new_price r = Max (new_price ` set (x # xs))
          \<and> get_max_price (x # xs) = (Some (new_price r), Some (timestamp r)))
   \<and> get_max_price
        (ledger (snd (save_to_database False (Some (c\<lparr>new_price := 180\<rparr>))
          (snd (save_to_database False (Some (b\<lparr>new_price := 250\<rparr>))
            (snd (save_to_database False (Some (a\<lparr>new_price := 100\<rparr>))
              (w\<lparr>ledger := []\<rparr>))))))))
       = (Some 250, Some (timestamp b))"
proof (intro conjI)
  show "get_max_price [] = (None, None)" by (rule get_max_price_Nil)
  show "\<exists>r. r \<in> set (x # xs) \<and> new_price r = Max (new_price ` set (x # xs))
          \<and> get_max_price (x # xs) = (Some (new_price r), Some (timestamp r))"
    by (rule get_max_price_Cons)
  show "get_max_price
        (ledger (snd (save_to_database False (Some (c\<lparr>new_price := 180\<rparr>))
          (snd (save_to_database False (Some (b\<lparr>new_price := 250\<rparr>))
            (snd (save_to_database False (Some (a\<lparr>new_price := 100\<rparr>))
              (w\<lparr>ledger := []\<rparr>))))))))
       = (Some 250, Some (timestamp b))"
    by (simp add: save_to_database_def emit_def get_max_price_def select_max_def)
qed

section \<open>One pass of the loop\<close>

lemma trace_emit [simp]: "trace (emit e w) = trace w @ [e]"
  by (simp add: emit_def)

lemma ledger_emit [simp]: "ledger (emit e w) = ledger w"
  by (simp add: emit_def)

lemma attempts_append [simp]: "attempts (xs @ ys) = attempts xs @ attempts ys"
  by (simp add: attempts_def List.map_filter_def)

lemma writes_append [simp]: "writes (xs @ ys) = writes xs @ writes ys"
  by (simp add: writes_def List.map_filter_def)

lemma attempts_simps [simp]:
  "attempts [] = []"
  "attempts (Sent t # tr) = t # attempts tr"
  "attempts (Send_raised t # tr) = t # attempts tr"
  "attempts (Saved r # tr) = attempts tr"
  "attempts (Slept n # tr) = attempts tr"
  "attempts (Logged l # tr) = attempts tr"
  by (simp_all add: attempts_def List.map_filter_def)

lemma writes_simps [simp]:
  "writes [] = []"
  "writes (Sent t # tr) = writes tr"
  "writes (Send_raised t # tr) = writes tr"
  "writes (Saved r # tr) = r # writes tr"
  "writes (Slept n # tr) = writes tr"
  "writes (Logged l # tr) = writes tr"
  by (simp_all add: writes_def List.map_filter_def)

lemma fetch_page_cases:
  "fetch_page h w = (None, emit (Logged Fetch_error) w) \<or> (\<exists>text. fetch_page h w = (Some text, w))"
  by (cases h) (auto simp: fetch_page_def)

lemma fetch_page_fst: "fst (fetch_page h w) = fst (fetch_page h w')"
  by (cases h) (auto simp: fetch_page_def)

lemma parse_page_fst: "fst (parse_page bs now html w) = fst (parse_page bs now html w')"
  by (auto simp: parse_page_def split: sum.splits)

lemma parse_page_cases:
  "(\<exists>info. parse_page bs now html w = (Inr (Some info), w))
   \<or> (\<exists>e. parse_page bs now html w = (Inr None, emit (Logged (Parse_error e)) w))"
  by (auto simp: parse_page_def dest: parse_page_try_error split: sum.splits)

text \<open>The world after the comparison and the send.\<close>

lemma ledger_send [simp]: "ledger (send_telegram_message raises text w) = ledger w"
  by (simp add: send_telegram_message_def)

lemma trace_send:
  "trace (send_telegram_message raises text w) =
     trace w @ (if raises then [Send_raised text, Logged Send_error] else [Sent text])"
  by (simp add: send_telegram_message_def)

lemma ledger_compare_and_notify [simp]: "ledger (compare_and_notify raises info w) = ledger w"
  by (simp add: compare_and_notify_def Let_def)

lemma trace_compare_and_notify:
  "trace (compare_and_notify raises info w) =
     trace w @ Logged (Info (choose_message (get_max_price (ledger w)) (new_price info)))
       # (if raises
          then [Send_raised (choose_message (get_max_price (ledger w)) (new_price info)),
                Logged Send_error]
          else [Sent (choose_message (get_max_price (ledger w)) (new_price info))])"
  by (simp add: compare_and_notify_def Let_def trace_send)

lemma attempts_compare_and_notify:
  "attempts (trace (compare_and_notify raises info w)) =
     attempts (trace w) @ [choose_message (get_max_price (ledger w)) (new_price info)]"
  by (simp add: trace_compare_and_notify)

lemma writes_compare_and_notify:
  "writes (trace (compare_and_notify raises info w)) = writes (trace w)"
  by (simp add: trace_compare_and_notify)

text \<open>One pass, by what it extracts.\<close>

lemma main_cycle_nothing:
  assumes "extraction bs env = None"
  shows "\<exists>logs. (logs = [] \<or> logs = [Logged Fetch_error] \<or> (\<exists>e. logs = [Logged (Parse_error e)]))
           \<and> main_cycle bs env w = (Next_iteration, w\<lparr>trace := trace w @ logs @ [Slept 60]\<rparr>)"
proof -
  from fetch_page_cases [of "http env" w]
  consider (none) "fetch_page (http env) w = (None, emit (Logged Fetch_error) w)"
    | (some) page where "fetch_page (http env) w = (Some page, w)" by blast
  then show ?thesis
  proof cases
    case none
    then have "main_cycle bs env w = (Next_iteration, w\<lparr>trace := trace w @ [Logged Fetch_error] @ [Slept 60]\<rparr>)"
      by (simp add: main_cycle_def sleep_def emit_def)
    then show ?thesis by blast
  next
    case some
    show ?thesis
    proof (cases "page = []")
      case True
      with some have "main_cycle bs env w = (Next_iteration, w\<lparr>trace := trace w @ [] @ [Slept 60]\<rparr>)"
        by (simp add: main_cycle_def sleep_def emit_def)
      then show ?thesis by blast
    next
      case False
      from some have "fst (fetch_page (http env) blank) = Some page"
        using fetch_page_fst [of "http env" blank w] by simp
      with assms False have "\<not> (\<exists>info. fst (parse_page bs (clock env) page blank) = Inr (Some info))"
        by (auto simp: extraction_def split: sum.splits option.splits)
      then have "\<not> (\<exists>info. fst (parse_page bs (clock env) page w) = Inr (Some info))"
        using parse_page_fst [of bs "clock env" page w blank] by simp
      with parse_page_cases [of bs "clock env" page w]
      obtain e where "parse_page bs (clock env) page w = (Inr None, emit (Logged (Parse_error e)) w)"
        by auto
      with some False
      have "main_cycle bs env w = (Next_iteration, w\<lparr>trace := trace w @ [Logged (Parse_error e)] @ [Slept 60]\<rparr>)"
        by (simp add: main_cycle_def sleep_def emit_def)
      then show ?thesis by blast
    qed
  qed
qed

lemma extraction_SomeD:
  assumes "extraction bs env = Some info"
  shows "\<exists>page. page \<noteq> [] \<and> fetch_page (http env) w = (Some page, w)
           \<and> parse_page bs (clock env) page w = (Inr (Some info), w)"
proof -
  from assms obtain page where f: "fst (fetch_page (http env) blank) = Some page" and ne: "page \<noteq> []"
    and p: "fst (parse_page bs (clock env) page blank) = Inr (Some info)"
    by (auto simp: extraction_def split: sum.splits option.splits if_splits)
  from f have "fst (fetch_page (http env) w) = Some page"
    using fetch_page_fst [of "http env" w blank] by simp
  with fetch_page_cases [of "http env" w] have f': "fetch_page (http env) w = (Some page, w)"
    by auto
  from p have "fst (parse_page bs (clock env) page w) = Inr (Some info)"
    using parse_page_fst [of bs "clock env" page w blank] by simp
  with parse_page_cases [of bs "clock env" page w]
  have "parse_page bs (clock env) page w = (Inr (Some info), w)" by auto
  with f' ne show ?thesis by blast
qed

lemma main_cycle_something:
  assumes "extraction bs env = Some info"
  shows "main_cycle bs env w =
     (if store_raises env
      then (Raised OtherException, compare_and_notify (send_raises env) info w)
      else (Next_iteration,
            (compare_and_notify (send_raises env) info w)
              \<lparr>ledger := ledger w @ [info],
               trace := trace (compare_and_notify (send_raises env) info w)
                  @ [Saved info, Logged (Saved_info info), Slept 60]\<rparr>))"
proof -
  from extraction_SomeD [OF assms, of w] obtain page where "page \<noteq> []"
    "fetch_page (http env) w = (Some page, w)"
    "parse_page bs (clock env) page w = (Inr (Some info), w)" by blast
  then show ?thesis
    by (simp add: main_cycle_def Let_def save_to_database_def sleep_def emit_def)
qed

section \<open>\<open>int\<close> reads back what \<open>str\<close> prints\<close>













subsection \<open>A price that \<open>int\<close> has read is printed within the digit limit\<close>










section \<open>The notification of a pass\<close>

lemma choose_message_eq:
  "choose_message (get_max_price rows) p =
     (if rows = [] \<or> Max (new_price ` set rows) < p then new_max_message p
      else recorded_max_message (Max (new_price ` set rows)) (snd (get_max_price rows)))"
proof (cases rows)
  case Nil
  then show ?thesis by (simp add: choose_message_def get_max_price_Nil)
next
  case (Cons x xs)
  from get_max_price_Cons [of x xs] obtain r where "r \<in> set (x # xs)"
    "new_price r = Max (new_price ` set (x # xs))"
    "get_max_price (x # xs) = (Some (new_price r), Some (timestamp r))" by blast
  with Cons show ?thesis by (simp add: choose_message_def)
qed

lemma message_kinds_differ: "new_max_message p \<noteq> recorded_max_message m t"
  by (simp add: new_max_message_def recorded_max_message_def)

lemma attempts_main_cycle:
  assumes "extraction bs env = Some info"
  shows "attempts (trace (snd (main_cycle bs env w))) =
           attempts (trace w) @ [choose_message (get_max_price (ledger w)) (new_price info)]"
  by (simp add: main_cycle_something [OF assms] attempts_compare_and_notify)



subsection \<open>Example passes\<close>

lemma py_int_900: "py_int ''900'' = Inr 900"
  by (simp add: py_int_def strip_def is_space_def unsigned_value_def digit_val_def
      count_digits_def int_max_str_digits_def)

lemma py_int_1000: "py_int ''1000'' = Inr 1000"
  by (simp add: py_int_def strip_def is_space_def unsigned_value_def digit_val_def
      count_digits_def int_max_str_digits_def)

lemma py_int_1500: "py_int ''1500'' = Inr 1500"
  by (simp add: py_int_def strip_def is_space_def unsigned_value_def digit_val_def
      count_digits_def int_max_str_digits_def)

lemma py_int_12999: "py_int ''12999'' = Inr 12999"
  by (simp add: py_int_def strip_def is_space_def unsigned_value_def digit_val_def
      count_digits_def int_max_str_digits_def)

lemma py_int_1083: "py_int ''1083'' = Inr 1083"
  by (simp add: py_int_def strip_def is_space_def unsigned_value_def digit_val_def
      count_digits_def int_max_str_digits_def)


lemma parse_page_try_example:
  assumes "py_int (replace_dot page) = Inr v"
  shows "parse_page_try example_parser now page =
           Inr \<lparr>product_name = ''iPhone'', old_price = 12999, new_price = v,
                installment_price = 1083, timestamp = now\<rparr>"
proof -
  have "price_at [''12.999'', page, ''1.083''] 0 = Inr 12999"
    by (simp add: price_at_def replace_dot_def py_int_12999)
  moreover have "price_at [''12.999'', page, ''1.083''] (Suc 0) = Inr v"
    using assms by (simp add: price_at_def)
  moreover have "price_at [''12.999'', page, ''1.083''] 2 = Inr 1083"
    by (simp add: price_at_def replace_dot_def py_int_1083)
  ultimately show ?thesis
    by (simp add: parse_page_try_def example_parser_def Let_def)
qed

lemma extraction_example:
  assumes "page \<noteq> []" and "py_int (replace_dot page) = Inr v"
  shows "extraction example_parser (example_env page now) =
           Some \<lparr>product_name = ''iPhone'', old_price = 12999, new_price = v,
                 installment_price = 1083, timestamp = now\<rparr>"
  using assms(1)
  by (simp add: extraction_def example_env_def fetch_page_def parse_page_def
      parse_page_try_example [OF assms(2)])

lemma extraction_example_none:
  assumes "py_int (replace_dot page) = Inl ValueError"
  shows "extraction example_parser (example_env page now) = None"
proof (cases "page = []")
  case True
  then show ?thesis by (simp add: extraction_def example_env_def fetch_page_def)
next
  case False
  have "price_at [''12.999'', page, ''1.083''] 0 = Inr 12999"
    by (simp add: price_at_def replace_dot_def py_int_12999)
  moreover have "price_at [''12.999'', page, ''1.083''] (Suc 0) = Inl ValueError"
    using assms by (simp add: price_at_def)
  ultimately have "parse_page_try example_parser (clock (example_env page now)) page = Inl ValueError"
    by (simp add: parse_page_try_def example_parser_def Let_def)
  with False show ?thesis
    by (simp add: extraction_def example_env_def fetch_page_def parse_page_def)
qed


section \<open>The table after a run\<close>

lemma ledger_main_cycle:
  assumes "extraction bs env = Some info" and "\<not> store_raises env"
  shows "main_cycle bs env w = (Next_iteration, snd (main_cycle bs env w))"
    and "ledger (snd (main_cycle bs env w)) = ledger w @ [info]"
    and "writes (trace (snd (main_cycle bs env w))) = writes (trace w) @ [info]"
  using assms(2)
  by (simp_all add: main_cycle_something [OF assms(1)] writes_compare_and_notify)

lemma main_loop_all_extracted:
  assumes "\<forall>env \<in> set envs. extraction bs env \<noteq> None \<and> \<not> store_raises env"
  shows "fst (main_loop bs envs w) = Next_iteration
         \<and> ledger (snd (main_loop bs envs w)) = ledger w @ map (\<lambda>env. the (extraction bs env)) envs"
  using assms
proof (induction envs arbitrary: w)
  case Nil
  show ?case by simp
next
  case (Cons env envs)
  from Cons.prems obtain info where i: "extraction bs env = Some info" and s: "\<not> store_raises env"
    by auto
  from Cons.prems have rest: "\<forall>env \<in> set envs. extraction bs env \<noteq> None \<and> \<not> store_raises env"
    by simp
  have step: "main_loop bs (env # envs) w = main_loop bs envs (snd (main_cycle bs env w))"
    using ledger_main_cycle(1) [OF i s, of w]
    by (cases "main_cycle bs env w") simp
  from Cons.IH [OF rest, of "snd (main_cycle bs env w)"]
  show ?case unfolding step by (simp add: ledger_main_cycle(2) [OF i s] i)
qed

lemma own_price_never_new_maximum:
  "choose_message (get_max_price (rows @ [info])) (new_price info) \<noteq> new_max_message (new_price info)"
proof -
  have "new_price info \<le> Max (new_price ` set (rows @ [info]))" by simp
  then have "\<not> Max (new_price ` set (rows @ [info])) < new_price info" by simp
  then show ?thesis
    by (simp only: choose_message_eq) (simp add: message_kinds_differ [symmetric])
qed

text \<open>
  C3. In a pass that extracts a record and whose write does not raise, the maximum that
  decides the notification is read from the table as it is before the pass writes; the
  record is then appended, once, whichever text was sent; read after the write, the
  maximum would never let the new-maximum text through. After passes that all extract a
  record and write it, the loop is still running and the table holds the rows it had,
  followed by the records of the passes in order: from an empty table, as many rows as
  passes.
\<close>

theorem main_loop_appends_every_observation:
  assumes "\<forall>env \<in> set envs. extraction bs env \<noteq> None \<and> \<not> store_raises env"
  shows "fst (main_loop bs envs w) = Next_iteration
     \<and> ledger (snd (main_loop bs envs w)) = ledger w @ map (\<lambda>env. the (extraction bs env)) envs
     \<and> length (ledger (snd (main_loop bs envs (w\<lparr>ledger := []\<rparr>)))) = length envs
     \<and> (\<forall>env \<in> set envs. \<forall>v.
           attempts (trace (snd (main_cycle bs env v)))
             = attempts (trace v)
                 @ [choose_message (get_max_price (ledger v)) (new_price (the (extraction bs env)))]
           \<and> ledger (snd (main_cycle bs env v)) = ledger v @ [the (extraction bs env)]
           \<and> writes (trace (snd (main_cycle bs env v))) = writes (trace v) @ [the (extraction bs env)]
           \<and> choose_message (get_max_price (ledger (snd (main_cycle bs env v))))
                 (new_price (the (extraction bs env)))
               \<noteq> new_max_message (new_price (the (extraction bs env))))"
proof (intro conjI ballI allI)
  from main_loop_all_extracted [OF assms, of w]
  show "fst (main_loop bs envs w) = Next_iteration"
    and "ledger (snd (main_loop bs envs w)) = ledger w @ map (\<lambda>env. the (extraction bs env)) envs"
    by simp_all
  from main_loop_all_extracted [OF assms, of "w\<lparr>ledger := []\<rparr>"]
  show "length (ledger (snd (main_loop bs envs (w\<lparr>ledger := []\<rparr>)))) = length envs"
    by simp
next
  fix env v
  assume "env \<in> set envs"
  with assms obtain info where i: "extraction bs env = Some info" and s: "\<not> store_raises env"
    by auto
  show "attempts (trace (snd (main_cycle bs env v)))
             = attempts (trace v)
                 @ [choose_message (get_max_price (ledger v)) (new_price (the (extraction bs env)))]"
    by (simp add: attempts_main_cycle [OF i] i)
  show "ledger (snd (main_cycle bs env v)) = ledger v @ [the (extraction bs env)]"
    by (simp add: ledger_main_cycle(2) [OF i s] i)
  show "writes (trace (snd (main_cycle bs env v))) = writes (trace v) @ [the (extraction bs env)]"
    by (simp add: ledger_main_cycle(3) [OF i s] i)
  show "choose_message (get_max_price (ledger (snd (main_cycle bs env v))))
                 (new_price (the (extraction bs env)))
               \<noteq> new_max_message (new_price (the (extraction bs env)))"
    by (simp add: ledger_main_cycle(2) [OF i s] i own_price_never_new_maximum)
qed


theorem main_loop_appends_every_observation_witness:
  "extraction example_parser (example_env ''1.000'' ''2024-05-01 10:00:00'')
     = Some \<lparr>product_name = ''iPhone'', old_price = 12999, new_price = 1000,
             installment_price = 1083, timestamp = ''2024-05-01 10:00:00''\<rparr>
   \<and> extraction example_parser (example_env ''900'' ''2024-05-01 10:01:00'')
     = Some \<lparr>product_name = ''iPhone'', old_price = 12999, new_price = 900,
             installment_price = 1083, timestamp = ''2024-05-01 10:01:00''\<rparr>
   \<and> extraction example_parser (example_env ''1.500'' ''2024-05-01 10:02:00'')
     = Some \<lparr>product_name = ''iPhone'', old_price = 12999, new_price = 1500,
             installment_price = 1083, timestamp = ''2024-05-01 10:02:00''\<rparr>
   \<and> fst (main_loop example_parser
         [example_env ''1.000'' ''2024-05-01 10:00:00'',
          example_env ''900'' ''2024-05-01 10:01:00'',
          example_env ''1.500'' ''2024-05-01 10:02:00''] blank) = Next_iteration
   \<and> ledger (snd (main_loop example_parser
         [example_env ''1.000'' ''2024-05-01 10:00:00'',
          example_env ''900'' ''2024-05-01 10:01:00'',
          example_env ''1.500'' ''2024-05-01 10:02:00''] blank))
     = [\<lparr>product_name = ''iPhone'', old_price = 12999, new_price = 1000,
         installment_price = 1083, timestamp = ''2024-05-01 10:00:00''\<rparr>,
        \<lparr>product_name = ''iPhone'', old_price = 12999, new_price = 900,
         installment_price = 1083, timestamp = ''2024-05-01 10:01:00''\<rparr>,
        \<lparr>product_name = ''iPhone'', old_price = 12999, new_price = 1500,
         installment_price = 1083, timestamp = ''2024-05-01 10:02:00''\<rparr>]
   \<and> length (ledger (snd (main_loop example_parser
         [example_env ''1.000'' ''2024-05-01 10:00:00'',
          example_env ''900'' ''2024-05-01 10:01:00'',
          example_env ''1.500'' ''2024-05-01 10:02:00''] blank))) = 3"
proof -
  let ?e1 = "example_env ''1.000'' ''2024-05-01 10:00:00''"
  let ?e2 = "example_env ''900'' ''2024-05-01 10:01:00''"
  let ?e3 = "example_env ''1.500'' ''2024-05-01 10:02:00''"
  have h1: "extraction example_parser ?e1
     = Some \<lparr>product_name = ''iPhone'', old_price = 12999, new_price = 1000,
             installment_price = 1083, timestamp = ''2024-05-01 10:00:00''\<rparr>"
    by (rule extraction_example) (simp_all add: replace_dot_def py_int_1000)
  have h2: "extraction example_parser ?e2
     = Some \<lparr>product_name = ''iPhone'', old_price = 12999, new_price = 900,
             installment_price = 1083, timestamp = ''2024-05-01 10:01:00''\<rparr>"
    by (rule extraction_example) (simp_all add: replace_dot_def py_int_900)
  have h3: "extraction example_parser ?e3
     = Some \<lparr>product_name = ''iPhone'', old_price = 12999, new_price = 1500,
             installment_price = 1083, timestamp = ''2024-05-01 10:02:00''\<rparr>"
    by (rule extraction_example) (simp_all add: replace_dot_def py_int_1500)
  have s: "\<not> store_raises (example_env page now)" for page now
    by (simp add: example_env_def)
  have hyp: "\<forall>env \<in> set [?e1, ?e2, ?e3]. extraction example_parser env \<noteq> None \<and> \<not> store_raises env"
    using h1 h2 h3 s by simp
  from main_loop_appends_every_observation [OF hyp, of blank]
  have "fst (main_loop example_parser [?e1, ?e2, ?e3] blank) = Next_iteration"
    and "ledger (snd (main_loop example_parser [?e1, ?e2, ?e3] blank))
           = ledger blank @ map (\<lambda>env. the (extraction example_parser env)) [?e1, ?e2, ?e3]"
    by blast+
  with h1 h2 h3 show ?thesis by (simp add: blank_def)
qed

section \<open>Passes that fail\<close>




section \<open>A send that raises\<close>

lemma extraction_send_raises [simp]:
  "extraction bs (env\<lparr>send_raises := b\<rparr>) = extraction bs env"
  by (simp add: extraction_def cong: option.case_cong if_cong)

lemma extraction_store_raises [simp]:
  "extraction bs (env\<lparr>store_raises := b\<rparr>) = extraction bs env"
  by (simp add: extraction_def cong: option.case_cong if_cong)

lemma trace_main_cycle:
  assumes "extraction bs env = Some info"
  shows "trace (snd (main_cycle bs env w)) =
     trace w
       @ [Logged (Info (choose_message (get_max_price (ledger w)) (new_price info)))]
       @ (if send_raises env
          then [Send_raised (choose_message (get_max_price (ledger w)) (new_price info)),
                Logged Send_error]
          else [Sent (choose_message (get_max_price (ledger w)) (new_price info))])
       @ (if store_raises env then []
          else [Saved info, Logged (Saved_info info), Slept 60])"
  by (simp add: main_cycle_something [OF assms] trace_compare_and_notify)

text \<open>
  C6. When \<open>bot.send_message\<close> raises, \<open>send_telegram_message\<close> logs the error and
  returns. The pass ends as it would have with a send that went through: the same outcome
  and the same table. Unless the write itself raises, the record is appended and the loop
  goes on with the next pass.
\<close>

theorem send_failure_is_swallowed:
  assumes "extraction bs env = Some info" and "send_raises env"
  shows "send_telegram_message True msg v = v\<lparr>trace := trace v @ [Send_raised msg, Logged Send_error]\<rparr>
     \<and> fst (main_cycle bs env w) = fst (main_cycle bs (env\<lparr>send_raises := False\<rparr>) w)
     \<and> ledger (snd (main_cycle bs env w)) = ledger (snd (main_cycle bs (env\<lparr>send_raises := False\<rparr>) w))
     \<and> Logged Send_error \<in> set (trace (snd (main_cycle bs env w)))
     \<and> (\<not> store_raises env \<longrightarrow>
           fst (main_cycle bs env w) = Next_iteration
           \<and> ledger (snd (main_cycle bs env w)) = ledger w @ [info]
           \<and> writes (trace (snd (main_cycle bs env w))) = writes (trace w) @ [info]
           \<and> main_loop bs (env # envs) w = main_loop bs envs (snd (main_cycle bs env w)))"
proof (intro conjI impI)
  show "send_telegram_message True msg v = v\<lparr>trace := trace v @ [Send_raised msg, Logged Send_error]\<rparr>"
    by (simp add: send_telegram_message_def emit_def)
  have i': "extraction bs (env\<lparr>send_raises := False\<rparr>) = Some info"
    using assms(1) by simp
  show "fst (main_cycle bs env w) = fst (main_cycle bs (env\<lparr>send_raises := False\<rparr>) w)"
    by (simp add: main_cycle_something [OF assms(1)] main_cycle_something [OF i'])
  show "ledger (snd (main_cycle bs env w)) = ledger (snd (main_cycle bs (env\<lparr>send_raises := False\<rparr>) w))"
    by (simp add: main_cycle_something [OF assms(1)] main_cycle_something [OF i'])
  show "Logged Send_error \<in> set (trace (snd (main_cycle bs env w)))"
    using assms(2) by (simp add: trace_main_cycle [OF assms(1)])
next
  assume s: "\<not> store_raises env"
  from ledger_main_cycle(1) [OF assms(1) s, of w]
  show "fst (main_cycle bs env w) = Next_iteration"
    by (cases "main_cycle bs env w") simp
  show "ledger (snd (main_cycle bs env w)) = ledger w @ [info]"
    by (rule ledger_main_cycle(2) [OF assms(1) s])
  show "writes (trace (snd (main_cycle bs env w))) = writes (trace w) @ [info]"
    by (rule ledger_main_cycle(3) [OF assms(1) s])
  from ledger_main_cycle(1) [OF assms(1) s, of w]
  show "main_loop bs (env # envs) w = main_loop bs envs (snd (main_cycle bs env w))"
    by (cases "main_cycle bs env w") simp
qed

theorem send_failure_is_swallowed_witness:
  "extraction example_parser ((example_env ''1.500'' ''2024-05-01 10:02:00'')\<lparr>send_raises := True\<rparr>)
     = Some \<lparr>product_name = ''iPhone'', old_price = 12999, new_price = 1500,
             installment_price = 1083, timestamp = ''2024-05-01 10:02:00''\<rparr>
   \<and> send_raises ((example_env ''1.500'' ''2024-05-01 10:02:00'')\<lparr>send_raises := True\<rparr>)
   \<and> fst (main_cycle example_parser
        ((example_env ''1.500'' ''2024-05-01 10:02:00'')\<lparr>send_raises := True\<rparr>) blank) = Next_iteration
   \<and> ledger (snd (main_cycle example_parser
        ((example_env ''1.500'' ''2024-05-01 10:02:00'')\<lparr>send_raises := True\<rparr>) blank))
     = [\<lparr>product_name = ''iPhone'', old_price = 12999, new_price = 1500,
         installment_price = 1083, timestamp = ''2024-05-01 10:02:00''\<rparr>]"
proof -
  let ?e = "(example_env ''1.500'' ''2024-05-01 10:02:00'')\<lparr>send_raises := True\<rparr>"
  let ?info = "\<lparr>product_name = ''iPhone'', old_price = 12999, new_price = 1500,
             installment_price = 1083, timestamp = ''2024-05-01 10:02:00''\<rparr>"
  have "extraction example_parser (example_env ''1.500'' ''2024-05-01 10:02:00'') = Some ?info"
    by (rule extraction_example) (simp_all add: replace_dot_def py_int_1500)
  then have h: "extraction example_parser ?e = Some ?info" by simp
  have r: "send_raises ?e" by simp
  have s: "\<not> store_raises ?e" by (simp add: example_env_def)
  from send_failure_is_swallowed [OF h r, of _ _ blank] s
  have "fst (main_cycle example_parser ?e blank) = Next_iteration"
    and "ledger (snd (main_cycle example_parser ?e blank)) = ledger blank @ [?info]"
    by blast+
  with h r show ?thesis by (simp add: blank_def)
qed

section \<open>Which price is which\<close>

text \<open>
  C9. When the name is found and the first three price texts are read by \<open>int\<close>, the
  record has the first as \<open>old_price\<close>, the second as \<open>new_price\<close> and the third as
  \<open>installment_price\<close>, whatever price elements follow. The second is the price that
  the pass compares with the stored maximum of \<open>new_price\<close> and that the new-maximum
  text carries.
\<close>

theorem parse_page_positional_prices:
  assumes "find_title (bs html) = Some name"
    and "find_all_fraction (bs html) = a # b # c # rest"
    and "py_int (replace_dot a) = Inr x"
    and "py_int (replace_dot b) = Inr y"
    and "py_int (replace_dot c) = Inr z"
  shows "fst (parse_page bs now html w)
       = Inr (Some \<lparr>product_name = name, old_price = x, new_price = y,
                    installment_price = z, timestamp = now\<rparr>)
     \<and> (html \<noteq> [] \<and> (status < 400 \<or> 600 \<le> status) \<longrightarrow>
          attempts (trace (snd (main_cycle bs
              \<lparr>http = Response status html, clock = now, send_raises = sr, store_raises = st\<rparr> v)))
            = attempts (trace v)
                @ [if ledger v = [] \<or> Max (new_price ` set (ledger v)) < y
                   then new_max_message y
                   else recorded_max_message (Max (new_price ` set (ledger v)))
                          (snd (get_max_price (ledger v)))])"
proof (intro conjI impI)
  let ?r = "\<lparr>product_name = name, old_price = x, new_price = y,
                    installment_price = z, timestamp = now\<rparr>"
  have "price_at (a # b # c # rest) 0 = Inr x" "price_at (a # b # c # rest) 1 = Inr y"
    "price_at (a # b # c # rest) 2 = Inr z"
    using assms(3-5) by (simp_all add: price_at_def)
  with assms(1,2) have t: "parse_page_try bs now html = Inr ?r"
    by (simp add: parse_page_try_Inr_iff)
  then show p: "fst (parse_page bs now html w) = Inr (Some ?r)" for w
    by (simp add: parse_page_Some_iff)
  assume "html \<noteq> [] \<and> (status < 400 \<or> 600 \<le> status)"
  then have e: "extraction bs \<lparr>http = Response status html, clock = now, send_raises = sr, store_raises = st\<rparr>
      = Some ?r"
    using p [of blank] by (auto simp: extraction_def fetch_page_def)
  show "attempts (trace (snd (main_cycle bs
              \<lparr>http = Response status html, clock = now, send_raises = sr, store_raises = st\<rparr> v)))
            = attempts (trace v)
                @ [if ledger v = [] \<or> Max (new_price ` set (ledger v)) < y
                   then new_max_message y
                   else recorded_max_message (Max (new_price ` set (ledger v)))
                          (snd (get_max_price (ledger v)))]"
    by (simp only: attempts_main_cycle [OF e] choose_message_eq) simp
qed

theorem parse_page_positional_prices_witness:
  "find_title (fixed_soup
       \<lparr>find_title = Some ''iPhone'', find_all_fraction = [''12.999'', ''1.500'', ''1.083'', ''abc'']\<rparr>
       ''<html>'') = Some ''iPhone''
   \<and> py_int (replace_dot ''12.999'') = Inr 12999
   \<and> py_int (replace_dot ''1.500'') = Inr 1500
   \<and> py_int (replace_dot ''1.083'') = Inr 1083
   \<and> fst (parse_page
        (fixed_soup
          \<lparr>find_title = Some ''iPhone'', find_all_fraction = [''12.999'', ''1.500'', ''1.083'', ''abc'']\<rparr>)
        ''2024-05-01 10:00:00'' ''<html>'' blank)
     = Inr (Some \<lparr>product_name = ''iPhone'', old_price = 12999, new_price = 1500,
                  installment_price = 1083, timestamp = ''2024-05-01 10:00:00''\<rparr>)
   \<and> attempts (trace (snd (main_cycle
        (fixed_soup
          \<lparr>find_title = Some ''iPhone'', find_all_fraction = [''12.999'', ''1.500'', ''1.083'', ''abc'']\<rparr>)
        \<lparr>http = Response 200 ''<html>'', clock = ''2024-05-01 10:00:00'',
          send_raises = False, store_raises = False\<rparr> blank)))
     = [new_max_message 1500]"
proof -
  let ?bs = "fixed_soup
       \<lparr>find_title = Some ''iPhone'', find_all_fraction = [''12.999'', ''1.500'', ''1.083'', ''abc'']\<rparr>"
  have t: "find_title (?bs ''<html>'') = Some ''iPhone''" by (simp add: fixed_soup_def)
  have f: "find_all_fraction (?bs ''<html>'') = ''12.999'' # ''1.500'' # ''1.083'' # [''abc'']"
    by (simp add: fixed_soup_def)
  have a: "py_int (replace_dot ''12.999'') = Inr 12999" by (simp add: replace_dot_def py_int_12999)
  have b: "py_int (replace_dot ''1.500'') = Inr 1500" by (simp add: replace_dot_def py_int_1500)
  have c: "py_int (replace_dot ''1.083'') = Inr 1083" by (simp add: replace_dot_def py_int_1083)
  note th = parse_page_positional_prices [where bs = ?bs and html = "''<html>''"
      and now = "''2024-05-01 10:00:00''" and w = blank and status = 200 and sr = False
      and st = False and v = blank, OF t f a b c]
  from th have "fst (parse_page ?bs ''2024-05-01 10:00:00'' ''<html>'' blank)
     = Inr (Some \<lparr>product_name = ''iPhone'', old_price = 12999, new_price = 1500,
                  installment_price = 1083, timestamp = ''2024-05-01 10:00:00''\<rparr>)"
    by blast
  moreover from th have "attempts (trace (snd (main_cycle ?bs
        \<lparr>http = Response 200 ''<html>'', clock = ''2024-05-01 10:00:00'',
          send_raises = False, store_raises = False\<rparr> blank)))
     = [new_max_message 1500]"
    by (simp add: blank_def)
  ultimately show ?thesis using t a b c by simp
qed

section \<open>The order of the send and the write\<close>

text \<open>
  C10. In a pass that extracts a record, the text is handed to the Notifier before the
  record is written: the events of the pass are the log line of the text, the send, and
  only then the write, its log line and the sleep. Between the send and the write the
  world has the notification and a table without the record; starting from an empty
  table, a new-maximum text has then been sent for a price the table does not hold. When
  the write raises, the loop ends in that world and the table never receives the record.
\<close>

theorem notification_precedes_append:
  assumes "extraction bs env = Some info"
  shows "trace (snd (main_cycle bs env w)) =
       trace w
         @ [Logged (Info (choose_message (get_max_price (ledger w)) (new_price info)))]
         @ (if send_raises env
            then [Send_raised (choose_message (get_max_price (ledger w)) (new_price info)),
                  Logged Send_error]
            else [Sent (choose_message (get_max_price (ledger w)) (new_price info))])
         @ (if store_raises env then []
            else [Saved info, Logged (Saved_info info), Slept 60])
     \<and> trace (snd (main_cycle bs env w)) =
         trace (compare_and_notify (send_raises env) info w)
           @ (if store_raises env then [] else [Saved info, Logged (Saved_info info), Slept 60])
     \<and> attempts (trace (compare_and_notify (send_raises env) info w))
         = attempts (trace w) @ [choose_message (get_max_price (ledger w)) (new_price info)]
     \<and> writes (trace (compare_and_notify (send_raises env) info w)) = writes (trace w)
     \<and> ledger (compare_and_notify (send_raises env) info w) = ledger w
     \<and> (ledger w = [] \<and> \<not> send_raises env \<longrightarrow>
           last (trace (compare_and_notify (send_raises env) info w))
             = Sent (new_max_message (new_price info))
           \<and> ledger (compare_and_notify (send_raises env) info w) = [])
     \<and> (store_raises env \<longrightarrow>
           main_loop bs (env # envs) w
             = (Raised OtherException, compare_and_notify (send_raises env) info w))"
proof (intro conjI impI)
  show "trace (snd (main_cycle bs env w)) =
       trace w
         @ [Logged (Info (choose_message (get_max_price (ledger w)) (new_price info)))]
         @ (if send_raises env
            then [Send_raised (choose_message (get_max_price (ledger w)) (new_price info)),
                  Logged Send_error]
            else [Sent (choose_message (get_max_price (ledger w)) (new_price info))])
         @ (if store_raises env then []
            else [Saved info, Logged (Saved_info info), Slept 60])"
    by (rule trace_main_cycle [OF assms])
  show "trace (snd (main_cycle bs env w)) =
         trace (compare_and_notify (send_raises env) info w)
           @ (if store_raises env then [] else [Saved info, Logged (Saved_info info), Slept 60])"
    by (simp add: main_cycle_something [OF assms])
  show "attempts (trace (compare_and_notify (send_raises env) info w))
         = attempts (trace w) @ [choose_message (get_max_price (ledger w)) (new_price info)]"
    by (rule attempts_compare_and_notify)
  show "writes (trace (compare_and_notify (send_raises env) info w)) = writes (trace w)"
    by (rule writes_compare_and_notify)
  show "ledger (compare_and_notify (send_raises env) info w) = ledger w"
    by simp
next
  assume a: "ledger w = [] \<and> \<not> send_raises env"
  then show "last (trace (compare_and_notify (send_raises env) info w))
             = Sent (new_max_message (new_price info))"
    by (simp add: trace_compare_and_notify choose_message_def get_max_price_Nil)
  from a show "ledger (compare_and_notify (send_raises env) info w) = []"
    by simp
next
  assume "store_raises env"
  then show "main_loop bs (env # envs) w
             = (Raised OtherException, compare_and_notify (send_raises env) info w)"
    by (simp add: main_cycle_something [OF assms])
qed

theorem notification_precedes_append_witness:
  "extraction example_parser (example_env ''1.500'' ''2024-05-01 10:02:00'')
     = Some \<lparr>product_name = ''iPhone'', old_price = 12999, new_price = 1500,
             installment_price = 1083, timestamp = ''2024-05-01 10:02:00''\<rparr>
   \<and> trace (snd (main_cycle example_parser (example_env ''1.500'' ''2024-05-01 10:02:00'') blank))
     = [Logged (Info (new_max_message 1500)),
        Sent (new_max_message 1500),
        Saved \<lparr>product_name = ''iPhone'', old_price = 12999, new_price = 1500,
               installment_price = 1083, timestamp = ''2024-05-01 10:02:00''\<rparr>,
        Logged (Saved_info \<lparr>product_name = ''iPhone'', old_price = 12999, new_price = 1500,
               installment_price = 1083, timestamp = ''2024-05-01 10:02:00''\<rparr>),
        Slept 60]
   \<and> main_loop example_parser
        [(example_env ''1.500'' ''2024-05-01 10:02:00'')\<lparr>store_raises := True\<rparr>,
         example_env ''900'' ''2024-05-01 10:03:00''] blank
     = (Raised OtherException,
        \<lparr>ledger = [], trace = [Logged (Info (new_max_message 1500)), Sent (new_max_message 1500)]\<rparr>)"
proof -
  let ?e = "example_env ''1.500'' ''2024-05-01 10:02:00''"
  let ?info = "\<lparr>product_name = ''iPhone'', old_price = 12999, new_price = 1500,
             installment_price = 1083, timestamp = ''2024-05-01 10:02:00''\<rparr>"
  have h: "extraction example_parser ?e = Some ?info"
    by (rule extraction_example) (simp_all add: replace_dot_def py_int_1500)
  then have h': "extraction example_parser (?e\<lparr>store_raises := True\<rparr>) = Some ?info"
    by simp
  have c: "choose_message (get_max_price (ledger blank)) 1500 = new_max_message 1500"
    by (simp add: blank_def choose_message_def get_max_price_Nil)
  have n: "compare_and_notify False ?info blank
      = \<lparr>ledger = [], trace = [Logged (Info (new_max_message 1500)), Sent (new_max_message 1500)]\<rparr>"
    using c by (simp add: compare_and_notify_def Let_def send_telegram_message_def emit_def blank_def)
  from notification_precedes_append [OF h, where w = blank]
  have "trace (snd (main_cycle example_parser ?e blank))
     = [Logged (Info (new_max_message 1500)), Sent (new_max_message 1500),
        Saved ?info, Logged (Saved_info ?info), Slept 60]"
    using c by (simp add: example_env_def blank_def)
  moreover
  from notification_precedes_append [OF h', where w = blank
      and envs = "[example_env ''900'' ''2024-05-01 10:03:00'']"]
  have "main_loop example_parser
        [?e\<lparr>store_raises := True\<rparr>, example_env ''900'' ''2024-05-01 10:03:00''] blank
     = (Raised OtherException,
        \<lparr>ledger = [], trace = [Logged (Info (new_max_message 1500)), Sent (new_max_message 1500)]\<rparr>)"
    using n by (simp add: example_env_def)
  ultimately show ?thesis using h by simp
qed

section \<open>The sign of a price\<close>

lemma set_strip_subset: "set (strip s) \<subseteq> set s"
proof -
  have "set (dropWhile is_space (rev (dropWhile is_space s))) \<subseteq> set (rev (dropWhile is_space s))"
    by (auto dest: set_dropWhileD)
  also have "\<dots> \<subseteq> set s" by (auto dest: set_dropWhileD)
  finally show ?thesis by (simp add: strip_def)
qed

lemma py_int_nonneg:
  assumes "py_int s = Inr v" and "CHR ''-'' \<notin> set s"
  shows "0 \<le> v"
proof -
  have "\<not> (strip s \<noteq> [] \<and> hd (strip s) = CHR ''-'')"
  proof
    assume "strip s \<noteq> [] \<and> hd (strip s) = CHR ''-''"
    then have "CHR ''-'' \<in> set (strip s)" by (metis hd_in_set)
    with set_strip_subset [of s] assms(2) show False by auto
  qed
  with assms(1) show ?thesis
    by (auto simp: py_int_def Let_def split: option.splits if_splits)
qed

lemma price_text_nonneg:
  assumes "py_int (replace_dot t) = Inr v" and "CHR ''-'' \<notin> set t"
  shows "0 \<le> v"
proof -
  from assms(2) have "CHR ''-'' \<notin> set (replace_dot t)" by (simp add: replace_dot_def)
  with assms(1) show ?thesis by (rule py_int_nonneg)
qed

lemma py_int_minus_1234: "py_int ''-1234'' = Inr (- 1234)"
  by (simp add: py_int_def strip_def is_space_def unsigned_value_def digit_val_def
      count_digits_def int_max_str_digits_def)

text \<open>
  C8, as it is stated, fails: a first price element with the text \<open>-1.234\<close> is read as
  \<open>- 1234\<close>, the record is created with this negative price, and the pass appends it to
  the table.
\<close>

theorem negative_price_counterexample:
  "fst (parse_page
     (fixed_soup
        \<lparr>find_title = Some ''iPhone'', find_all_fraction = [''-1.234'', ''2.000'', ''166'']\<rparr>)
     ''2024-05-01 10:00:00'' ''<html>'' blank)
   = Inr (Some \<lparr>product_name = ''iPhone'', old_price = - 1234, new_price = 2000,
                installment_price = 166, timestamp = ''2024-05-01 10:00:00''\<rparr>)
   \<and> ledger (snd (main_cycle
     (fixed_soup
        \<lparr>find_title = Some ''iPhone'', find_all_fraction = [''-1.234'', ''2.000'', ''166'']\<rparr>)
     \<lparr>http = Response 200 ''<html>'', clock = ''2024-05-01 10:00:00'',
       send_raises = False, store_raises = False\<rparr> blank))
   = [\<lparr>product_name = ''iPhone'', old_price = - 1234, new_price = 2000,
       installment_price = 166, timestamp = ''2024-05-01 10:00:00''\<rparr>]
   \<and> old_price \<lparr>product_name = ''iPhone'', old_price = - 1234, new_price = 2000,
       installment_price = 166, timestamp = ''2024-05-01 10:00:00''\<rparr> < 0"
proof -
  let ?bs = "fixed_soup
        \<lparr>find_title = Some ''iPhone'', find_all_fraction = [''-1.234'', ''2.000'', ''166'']\<rparr>"
  let ?r = "\<lparr>product_name = ''iPhone'', old_price = - 1234, new_price = 2000,
                installment_price = 166, timestamp = ''2024-05-01 10:00:00''\<rparr>"
  have "price_at [''-1.234'', ''2.000'', ''166''] 0 = Inr (- 1234)"
    by (simp add: price_at_def replace_dot_def py_int_minus_1234)
  moreover have "price_at [''-1.234'', ''2.000'', ''166''] (Suc 0) = Inr 2000"
    by (simp add: price_at_def replace_dot_def py_int_2000)
  moreover have "price_at [''-1.234'', ''2.000'', ''166''] 2 = Inr 166"
    by (simp add: price_at_def replace_dot_def py_int_166)
  ultimately have t: "parse_page_try ?bs ''2024-05-01 10:00:00'' ''<html>'' = Inr ?r"
    by (simp add: parse_page_try_def fixed_soup_def Let_def)
  then have p: "fst (parse_page ?bs ''2024-05-01 10:00:00'' ''<html>'' blank) = Inr (Some ?r)"
    by (simp add: parse_page_Some_iff)
  then have e: "extraction ?bs \<lparr>http = Response 200 ''<html>'', clock = ''2024-05-01 10:00:00'',
       send_raises = False, store_raises = False\<rparr> = Some ?r"
    by (simp add: extraction_def fetch_page_def)
  have "ledger (snd (main_cycle ?bs \<lparr>http = Response 200 ''<html>'', clock = ''2024-05-01 10:00:00'',
       send_raises = False, store_raises = False\<rparr> blank)) = [?r]"
    by (simp add: main_cycle_something [OF e] blank_def)
  with p show ?thesis by simp
qed

lemma extraction_is_parse_result:
  assumes "extraction bs env = Some info"
  shows "\<exists>page. fst (parse_page bs (clock env) page w) = Inr (Some info)"
proof -
  from extraction_SomeD [OF assms, of w] obtain page
    where "parse_page bs (clock env) page w = (Inr (Some info), w)" by blast
  then have "fst (parse_page bs (clock env) page w) = Inr (Some info)" by simp
  then show ?thesis ..
qed

lemma ledger_main_cycle_cases:
  "ledger (snd (main_cycle bs env w)) = ledger w
   \<or> (\<exists>info. extraction bs env = Some info \<and> ledger (snd (main_cycle bs env w)) = ledger w @ [info])"
proof (cases "extraction bs env")
  case None
  from main_cycle_nothing [OF this, of w] show ?thesis by auto
next
  case (Some info)
  then show ?thesis by (simp add: main_cycle_something [OF Some])
qed

text \<open>
  C8, amended. A record that \<open>parse_page\<close> returns has all five fields: the name found,
  the time stamp, and as its three prices the integers that \<open>int\<close> reads from the first
  three price texts with the dots removed. A price is not negative when its text has no
  minus sign. A pass leaves the table as it was or appends one record that \<open>parse_page\<close>
  returned.
\<close>

theorem parse_page_record_fields:
  assumes "fst (parse_page bs now html w) = Inr (Some r)"
  shows "find_title (bs html) = Some (product_name r)
     \<and> timestamp r = now
     \<and> 3 \<le> length (find_all_fraction (bs html))
     \<and> py_int (replace_dot (find_all_fraction (bs html) ! 0)) = Inr (old_price r)
     \<and> py_int (replace_dot (find_all_fraction (bs html) ! 1)) = Inr (new_price r)
     \<and> py_int (replace_dot (find_all_fraction (bs html) ! 2)) = Inr (installment_price r)
     \<and> (CHR ''-'' \<notin> set (find_all_fraction (bs html) ! 0) \<longrightarrow> 0 \<le> old_price r)
     \<and> (CHR ''-'' \<notin> set (find_all_fraction (bs html) ! 1) \<longrightarrow> 0 \<le> new_price r)
     \<and> (CHR ''-'' \<notin> set (find_all_fraction (bs html) ! 2) \<longrightarrow> 0 \<le> installment_price r)
     \<and> (ledger (snd (main_cycle bs env v)) = ledger v
          \<or> (\<exists>q page. fst (parse_page bs (clock env) page v) = Inr (Some q)
                \<and> ledger (snd (main_cycle bs env v)) = ledger v @ [q]))"
proof -
  let ?ps = "find_all_fraction (bs html)"
  from assms have "parse_page_try bs now html = Inr r" by (simp add: parse_page_Some_iff)
  then obtain name a b c where t: "find_title (bs html) = Some name"
    and p: "price_at ?ps 0 = Inr a" "price_at ?ps 1 = Inr b" "price_at ?ps 2 = Inr c"
    and r: "r = \<lparr>product_name = name, old_price = a, new_price = b,
                 installment_price = c, timestamp = now\<rparr>"
    by (auto simp: parse_page_try_Inr_iff)
  note q = p [THEN price_at_Inr]
  from q have len: "3 \<le> length ?ps" by simp
  from q have i: "py_int (replace_dot (?ps ! 0)) = Inr a" "py_int (replace_dot (?ps ! 1)) = Inr b"
    "py_int (replace_dot (?ps ! 2)) = Inr c" by simp_all
  have n: "CHR ''-'' \<notin> set (?ps ! 0) \<longrightarrow> 0 \<le> a" "CHR ''-'' \<notin> set (?ps ! 1) \<longrightarrow> 0 \<le> b"
    "CHR ''-'' \<notin> set (?ps ! 2) \<longrightarrow> 0 \<le> c"
    using i by (auto intro: price_text_nonneg)
  have l: "ledger (snd (main_cycle bs env v)) = ledger v
          \<or> (\<exists>q page. fst (parse_page bs (clock env) page v) = Inr (Some q)
                \<and> ledger (snd (main_cycle bs env v)) = ledger v @ [q])"
    using ledger_main_cycle_cases [of bs env v] extraction_is_parse_result [of bs env _ v]
    by blast
  from t len i n l show ?thesis unfolding r by simp
qed

theorem parse_page_record_fields_witness:
  "fst (parse_page
     (fixed_soup
        \<lparr>find_title = Some ''iPhone'', find_all_fraction = [''1.234'', ''2.000'', ''166'']\<rparr>)
     ''2024-05-01 10:00:00'' ''<html>'' blank)
   = Inr (Some \<lparr>product_name = ''iPhone'', old_price = 1234, new_price = 2000,
                installment_price = 166, timestamp = ''2024-05-01 10:00:00''\<rparr>)
   \<and> CHR ''-'' \<notin> set ''1.234''
   \<and> py_int (replace_dot ''1.234'') = Inr 1234
   \<and> 0 \<le> old_price \<lparr>product_name = ''iPhone'', old_price = 1234, new_price = 2000,
                installment_price = 166, timestamp = ''2024-05-01 10:00:00''\<rparr>"
proof -
  let ?bs = "fixed_soup
        \<lparr>find_title = Some ''iPhone'', find_all_fraction = [''1.234'', ''2.000'', ''166'']\<rparr>"
  let ?r = "\<lparr>product_name = ''iPhone'', old_price = 1234, new_price = 2000,
                installment_price = 166, timestamp = ''2024-05-01 10:00:00''\<rparr>"
  have "price_at [''1.234'', ''2.000'', ''166''] 0 = Inr 1234"
    by (simp add: price_at_def replace_dot_def py_int_1234)
  moreover have "price_at [''1.234'', ''2.000'', ''166''] (Suc 0) = Inr 2000"
    by (simp add: price_at_def replace_dot_def py_int_2000)
  moreover have "price_at [''1.234'', ''2.000'', ''166''] 2 = Inr 166"
    by (simp add: price_at_def replace_dot_def py_int_166)
  ultimately have "parse_page_try ?bs ''2024-05-01 10:00:00'' ''<html>'' = Inr ?r"
    by (simp add: parse_page_try_def fixed_soup_def Let_def)
  then have p: "fst (parse_page ?bs ''2024-05-01 10:00:00'' ''<html>'' blank) = Inr (Some ?r)"
    by (simp add: parse_page_Some_iff)
  have m: "CHR ''-'' \<notin> set (find_all_fraction (?bs ''<html>'') ! 0)"
    by (simp add: fixed_soup_def)
  note th = parse_page_record_fields [OF p]
  from th have "py_int (replace_dot (find_all_fraction (?bs ''<html>'') ! 0)) = Inr (old_price ?r)"
    by blast
  then have i: "py_int (replace_dot ''1.234'') = Inr 1234" by (simp add: fixed_soup_def)
  from th have "CHR ''-'' \<notin> set (find_all_fraction (?bs ''<html>'') ! 0) \<longrightarrow> 0 \<le> old_price ?r"
    by blast
  with m have n: "0 \<le> old_price ?r" by blast
  from m have "CHR ''-'' \<notin> set ''1.234''" by (simp add: fixed_soup_def)
  with p i n show ?thesis by blast
qed

end
